theory Spec2Isabelle
  imports Main "HOL-Library.Word" "HOL-Library.Signed_Division"
begin

section \<open>Machine arithmetic of the C source\<close>

text \<open>
  \<open>getTimeUsec\<close> computes on 64-bit integers. A 64-bit value is a \<open>64 word\<close>: addition
  and multiplication wrap around modulo \<open>2 ^ 64\<close>, \<open>sint\<close> reads the word as the signed
  \<open>LONGLONG\<close>/\<open>int64_t\<close> the source declares, \<open>uint\<close> as an unsigned value.
\<close>

type_synonym int64 = "64 word"
type_synonym uint64 = "64 word"

text \<open>
  Modelled from the spec: the header \<open>include/time.h\<close>, which declares the return type
  \<open>Time\<close>, is not among the sources at hand. The specification describes a timestamp as
  a 64-bit unsigned (or signed, non-negative) integer, so \<open>Time\<close> is a 64-bit value, and
  every statement on the order of timestamps is given for both readings.
\<close>

type_synonym Time = "64 word"

text \<open>
  C's \<open>/\<close> and \<open>%\<close> on signed operands truncate towards zero (\<open>sdiv\<close> and \<open>smod\<close> on
  \<open>int\<close>). Dividing by zero, and dividing the least value by \<open>-1\<close>, have no result: the
  processor raises its divide exception. Both are values of the model.
\<close>

datatype fault = DivideByZero | DivideOverflow

definition sdiv64 :: "int64 \<Rightarrow> int64 \<Rightarrow> fault + int64" where
  "sdiv64 a b =
     (if b = 0 then Inl DivideByZero
      else if sint a = - (2 ^ 63) \<and> sint b = - 1 then Inl DivideOverflow
      else Inr (word_of_int (sint a sdiv sint b)))"

definition smod64 :: "int64 \<Rightarrow> int64 \<Rightarrow> fault + int64" where
  "smod64 a b =
     (if b = 0 then Inl DivideByZero
      else if sint a = - (2 ^ 63) \<and> sint b = - 1 then Inl DivideOverflow
      else Inr (word_of_int (sint a smod sint b)))"

definition udiv64 :: "uint64 \<Rightarrow> uint64 \<Rightarrow> fault + uint64" where
  "udiv64 a b = (if b = 0 then Inl DivideByZero else Inr (a div b))"

section \<open>The platform: data, primitives and what a call leaves behind\<close>

text \<open>\<open>LARGE_INTEGER\<close> is read through its 64-bit member \<open>QuadPart\<close> only.\<close>

record LARGE_INTEGER =
  QuadPart :: int64

text \<open>
  \<open>struct timespec\<close>, with \<open>time_t\<close> and \<open>long\<close> both 64 bits wide (LP64).
\<close>

record timespec =
  tv_sec :: int64
  tv_nsec :: int64

text \<open>A \<open>double\<close> is carried as its 64-bit pattern; its arithmetic is a parameter below.\<close>

type_synonym double = "64 word"

text \<open>
  The answers of the platform's primitives during one call of \<open>getTimeUsec\<close>. Each
  primitive is called at most once per call, so one answer each is enough.
  \<^item> \<open>QueryPerformanceFrequency\<close> and \<open>QueryPerformanceCounter\<close> answer \<open>None\<close> when they
    return \<open>FALSE\<close> and leave their argument as it was, \<open>Some v\<close> when they return
    \<open>TRUE\<close> and store \<open>v\<close> through the pointer; \<open>v\<close> is any 64-bit value, the source
    does not look at it before it uses it.
  \<^item> \<open>ra_clock_gettime\<close> answers its \<open>int\<close> status and the contents of \<open>tv\<close> after the
    call (\<open>tv\<close> is zero before it).
\<close>

record os =
  QueryPerformanceFrequency :: "LARGE_INTEGER option"
  QueryPerformanceCounter :: "LARGE_INTEGER option"
  sysGetSystemTime :: int64
  sys_time_get_system_time :: uint64
  gettime :: uint64
  OSGetSystemTime :: int64
  svcGetSystemTick :: uint64
  osGetTime :: uint64
  ra_clock_gettime :: "32 word \<times> timespec"
  emscripten_get_now :: double
  ps2_clock :: uint64
  sceKernelGetSystemTimeWide :: int64

text \<open>
  Macros and conversions that the platforms' development kits supply and the sources at
  hand do not contain: they are parameters. \<open>double_mul\<close>, \<open>double_of_int\<close> and
  \<open>Time_of_double\<close> stand for the floating-point multiplication and the two conversions
  of the \<open>EMSCRIPTEN\<close> branch.
\<close>

record sdk =
  ticks_to_microsecs :: "uint64 \<Rightarrow> uint64"
  ticks_to_us :: "int64 \<Rightarrow> uint64"
  PS2_CLOCKS_PER_MSEC :: uint64
  double_mul :: "double \<Rightarrow> double \<Rightarrow> double"
  double_of_int :: "int \<Rightarrow> double"
  Time_of_double :: "double \<Rightarrow> Time"

text \<open>
  What one call does: the value it returns (or the fault that stops it), the contents of
  the function's \<open>static LARGE_INTEGER freq\<close> afterwards, and the primitives it called,
  in order.
\<close>

record outcome =
  returned :: "fault + Time"
  freq_after :: LARGE_INTEGER
  called :: "string list"

section \<open>\<open>src/Sources/CLoftwing/src/time.c\<close>\<close>

subsection \<open>The \<open>_WIN32\<close> branch (lines 27 to 36)\<close>

text \<open>
  Line 36:
  \<^verbatim>\<open>(count.QuadPart / freq.QuadPart * 1000000) + (count.QuadPart % freq.QuadPart * 1000000 / freq.QuadPart)\<close>
\<close>

definition win32_convert :: "LARGE_INTEGER \<Rightarrow> LARGE_INTEGER \<Rightarrow> fault + Time" where
  "win32_convert count freq =
     (case sdiv64 (QuadPart count) (QuadPart freq) of
        Inl e \<Rightarrow> Inl e
      | Inr q \<Rightarrow>
         (case smod64 (QuadPart count) (QuadPart freq) of
            Inl e \<Rightarrow> Inl e
          | Inr r \<Rightarrow>
             (case sdiv64 (r * 1000000) (QuadPart freq) of
                Inl e \<Rightarrow> Inl e
              | Inr d \<Rightarrow> Inr (q * 1000000 + d))))"

text \<open>Lines 34 to 36, entered with the frequency \<open>freq\<close> and the calls made so far.\<close>

definition win32_read_counter :: "os \<Rightarrow> LARGE_INTEGER \<Rightarrow> string list \<Rightarrow> outcome" where
  "win32_read_counter w freq cs =
     (case QueryPerformanceCounter w of
        None \<Rightarrow>
          \<lparr>returned = Inr 0, freq_after = freq,
           called = cs @ [''QueryPerformanceCounter'']\<rparr>
      | Some count \<Rightarrow>
          \<lparr>returned = win32_convert count freq, freq_after = freq,
           called = cs @ [''QueryPerformanceCounter'']\<rparr>)"

text \<open>
  Lines 31 and 32: \<open>&&\<close> evaluates its right operand only when \<open>freq.QuadPart\<close> is zero.
\<close>

definition getTimeUsec_WIN32 :: "os \<Rightarrow> LARGE_INTEGER \<Rightarrow> outcome" where
  "getTimeUsec_WIN32 w freq =
     (if QuadPart freq = 0 then
        (case QueryPerformanceFrequency w of
           None \<Rightarrow>
             \<lparr>returned = Inr 0, freq_after = freq,
              called = [''QueryPerformanceFrequency'']\<rparr>
         | Some f \<Rightarrow> win32_read_counter w f [''QueryPerformanceFrequency''])
      else win32_read_counter w freq [])"

subsection \<open>The POSIX branch (lines 50 to 53)\<close>

definition posix_convert :: "timespec \<Rightarrow> fault + Time" where
  "posix_convert tv =
     (case sdiv64 (tv_nsec tv + 500) 1000 of
        Inl e \<Rightarrow> Inl e
      | Inr us \<Rightarrow> Inr (tv_sec tv * 1000000 + us))"

definition getTimeUsec_POSIX :: "os \<Rightarrow> LARGE_INTEGER \<Rightarrow> outcome" where
  "getTimeUsec_POSIX w freq =
     (case ra_clock_gettime w of
        (status, tv) \<Rightarrow>
          if status <s 0 then
            \<lparr>returned = Inr 0, freq_after = freq, called = [''ra_clock_gettime'']\<rparr>
          else
            \<lparr>returned = posix_convert tv, freq_after = freq,
             called = [''ra_clock_gettime'']\<rparr>)"

subsection \<open>The other branches (lines 38 to 59)\<close>

text \<open>
  These branches have no \<open>static\<close> variable: the frequency cache of the \<open>_WIN32\<close> build is
  handed through untouched. The arithmetic of lines 46, 48 and 57 is unsigned 64-bit.
\<close>

definition getTimeUsec_PSL1GHT :: "os \<Rightarrow> LARGE_INTEGER \<Rightarrow> outcome" where
  "getTimeUsec_PSL1GHT w freq =
     \<lparr>returned = Inr (sysGetSystemTime w), freq_after = freq,
      called = [''sysGetSystemTime'']\<rparr>"

definition getTimeUsec_PS3 :: "os \<Rightarrow> LARGE_INTEGER \<Rightarrow> outcome" where
  "getTimeUsec_PS3 w freq =
     \<lparr>returned = Inr (sys_time_get_system_time w), freq_after = freq,
      called = [''sys_time_get_system_time'']\<rparr>"

definition getTimeUsec_GEKKO :: "sdk \<Rightarrow> os \<Rightarrow> LARGE_INTEGER \<Rightarrow> outcome" where
  "getTimeUsec_GEKKO k w freq =
     \<lparr>returned = Inr (ticks_to_microsecs k (gettime w)), freq_after = freq,
      called = [''gettime'']\<rparr>"

definition getTimeUsec_WIIU :: "sdk \<Rightarrow> os \<Rightarrow> LARGE_INTEGER \<Rightarrow> outcome" where
  "getTimeUsec_WIIU k w freq =
     \<lparr>returned = Inr (ticks_to_us k (OSGetSystemTime w)), freq_after = freq,
      called = [''OSGetSystemTime'']\<rparr>"

definition getTimeUsec_SWITCH :: "os \<Rightarrow> LARGE_INTEGER \<Rightarrow> outcome" where
  "getTimeUsec_SWITCH w freq =
     \<lparr>returned = udiv64 (svcGetSystemTick w * 10) 192, freq_after = freq,
      called = [''svcGetSystemTick'']\<rparr>"

definition getTimeUsec_3DS :: "os \<Rightarrow> LARGE_INTEGER \<Rightarrow> outcome" where
  "getTimeUsec_3DS w freq =
     \<lparr>returned = Inr (osGetTime w * 1000), freq_after = freq,
      called = [''osGetTime'']\<rparr>"

definition getTimeUsec_EMSCRIPTEN :: "sdk \<Rightarrow> os \<Rightarrow> LARGE_INTEGER \<Rightarrow> outcome" where
  "getTimeUsec_EMSCRIPTEN k w freq =
     \<lparr>returned =
        Inr (Time_of_double k (double_mul k (emscripten_get_now w) (double_of_int k 1000))),
      freq_after = freq, called = [''emscripten_get_now'']\<rparr>"

definition getTimeUsec_PS2 :: "sdk \<Rightarrow> os \<Rightarrow> LARGE_INTEGER \<Rightarrow> outcome" where
  "getTimeUsec_PS2 k w freq =
     \<lparr>returned =
        (case udiv64 (ps2_clock w) (PS2_CLOCKS_PER_MSEC k) of
           Inl e \<Rightarrow> Inl e
         | Inr ms \<Rightarrow> Inr (ms * 1000)),
      freq_after = freq, called = [''ps2_clock'']\<rparr>"

definition getTimeUsec_VITA :: "os \<Rightarrow> LARGE_INTEGER \<Rightarrow> outcome" where
  "getTimeUsec_VITA w freq =
     \<lparr>returned = Inr (sceKernelGetSystemTimeWide w), freq_after = freq,
      called = [''sceKernelGetSystemTimeWide'']\<rparr>"

subsection \<open>The conditional compilation (lines 26 to 62)\<close>

text \<open>
  The build is given by the set of macro names that are defined when the file is
  compiled. The preprocessor keeps the first branch whose condition holds; with none,
  the \<open>#error\<close> directive of line 61 stops the build with its message, and no function
  is produced. So a build is either that message or the function that was compiled.
\<close>

definition defined :: "string set \<Rightarrow> string \<Rightarrow> bool" where
  "defined D m = (m \<in> D)"

datatype build_error = Error string

type_synonym compiled = "sdk \<Rightarrow> os \<Rightarrow> LARGE_INTEGER \<Rightarrow> outcome"

definition getTimeUsec :: "string set \<Rightarrow> build_error + compiled" where
  "getTimeUsec D =
     (if defined D ''_WIN32'' then Inr (\<lambda>k. getTimeUsec_WIN32)
      else if defined D ''__PSL1GHT__'' then Inr (\<lambda>k. getTimeUsec_PSL1GHT)
      else if \<not> defined D ''__PSL1GHT__'' \<and> defined D ''__PS3__'' then
        Inr (\<lambda>k. getTimeUsec_PS3)
      else if defined D ''GEKKO'' then Inr getTimeUsec_GEKKO
      else if defined D ''WIIU'' then Inr getTimeUsec_WIIU
      else if defined D ''SWITCH'' \<or> defined D ''HAVE_LIBNX'' then
        Inr (\<lambda>k. getTimeUsec_SWITCH)
      else if defined D ''_3DS'' then Inr (\<lambda>k. getTimeUsec_3DS)
      else if defined D ''_POSIX_MONOTONIC_CLOCK'' \<or> defined D ''__QNX__''
              \<or> defined D ''ANDROID'' \<or> defined D ''__MACH__'' \<or> defined D ''DJGPP'' then
        Inr (\<lambda>k. getTimeUsec_POSIX)
      else if defined D ''EMSCRIPTEN'' then Inr getTimeUsec_EMSCRIPTEN
      else if defined D ''PS2'' then Inr getTimeUsec_PS2
      else if defined D ''VITA'' \<or> defined D ''PSP'' then Inr (\<lambda>k. getTimeUsec_VITA)
      else Inl (Error ''Your platform does not have a timer function implemented in cpu_features_get_time_usec(). Cannot continue.''))"

text \<open>The macro names that the conditions of lines 26 to 58 test.\<close>

definition tested_macros :: "string list" where
  "tested_macros =
     [''_WIN32'', ''__PSL1GHT__'', ''__PS3__'', ''GEKKO'', ''WIIU'', ''SWITCH'',
      ''HAVE_LIBNX'', ''_3DS'', ''_POSIX_MONOTONIC_CLOCK'', ''__QNX__'', ''ANDROID'',
      ''__MACH__'', ''DJGPP'', ''EMSCRIPTEN'', ''PS2'', ''VITA'', ''PSP'']"

section \<open>\<open>src/Sources/CLoftwing/time.c\<close>\<close>

text \<open>
  The second file of the repository defines \<open>getTimeUsec\<close> again (lines 29 to 68). It is
  translated on its own, branch by branch in the order of that file, with the bodies
  written in place.
\<close>

definition getTimeUsec_root :: "string set \<Rightarrow> build_error + compiled" where
  "getTimeUsec_root D =
     (if defined D ''_WIN32'' then
        Inr (\<lambda>k w freq.
          if QuadPart freq = 0 \<and> QueryPerformanceFrequency w = None then
            \<lparr>returned = Inr 0, freq_after = freq,
             called = [''QueryPerformanceFrequency'']\<rparr>
          else
            (let (freq', cs) =
               (case (QuadPart freq = 0, QueryPerformanceFrequency w) of
                  (True, Some f) \<Rightarrow> (f, [''QueryPerformanceFrequency''])
                | _ \<Rightarrow> (freq, []))
             in case QueryPerformanceCounter w of
               None \<Rightarrow>
                 \<lparr>returned = Inr 0, freq_after = freq',
                  called = cs @ [''QueryPerformanceCounter'']\<rparr>
             | Some count \<Rightarrow>
                 \<lparr>returned =
                    (case sdiv64 (QuadPart count) (QuadPart freq') of
                       Inl e \<Rightarrow> Inl e
                     | Inr q \<Rightarrow>
                        (case smod64 (QuadPart count) (QuadPart freq') of
                           Inl e \<Rightarrow> Inl e
                         | Inr r \<Rightarrow>
                            (case sdiv64 (r * 1000000) (QuadPart freq') of
                               Inl e \<Rightarrow> Inl e
                             | Inr d \<Rightarrow> Inr (q * 1000000 + d)))),
                  freq_after = freq',
                  called = cs @ [''QueryPerformanceCounter'']\<rparr>))
      else if defined D ''__PSL1GHT__'' then
        Inr (\<lambda>k w freq.
          \<lparr>returned = Inr (sysGetSystemTime w), freq_after = freq,
           called = [''sysGetSystemTime'']\<rparr>)
      else if \<not> defined D ''__PSL1GHT__'' \<and> defined D ''__PS3__'' then
        Inr (\<lambda>k w freq.
          \<lparr>returned = Inr (sys_time_get_system_time w), freq_after = freq,
           called = [''sys_time_get_system_time'']\<rparr>)
      else if defined D ''GEKKO'' then
        Inr (\<lambda>k w freq.
          \<lparr>returned = Inr (ticks_to_microsecs k (gettime w)), freq_after = freq,
           called = [''gettime'']\<rparr>)
      else if defined D ''WIIU'' then
        Inr (\<lambda>k w freq.
          \<lparr>returned = Inr (ticks_to_us k (OSGetSystemTime w)), freq_after = freq,
           called = [''OSGetSystemTime'']\<rparr>)
      else if defined D ''SWITCH'' \<or> defined D ''HAVE_LIBNX'' then
        Inr (\<lambda>k w freq.
          \<lparr>returned = udiv64 (svcGetSystemTick w * 10) 192, freq_after = freq,
           called = [''svcGetSystemTick'']\<rparr>)
      else if defined D ''_3DS'' then
        Inr (\<lambda>k w freq.
          \<lparr>returned = Inr (osGetTime w * 1000), freq_after = freq,
           called = [''osGetTime'']\<rparr>)
      else if defined D ''_POSIX_MONOTONIC_CLOCK'' \<or> defined D ''__QNX__''
              \<or> defined D ''ANDROID'' \<or> defined D ''__MACH__'' \<or> defined D ''DJGPP'' then
        Inr (\<lambda>k w freq.
          if fst (ra_clock_gettime w) <s 0 then
            \<lparr>returned = Inr 0, freq_after = freq, called = [''ra_clock_gettime'']\<rparr>
          else
            \<lparr>returned =
               (case sdiv64 (tv_nsec (snd (ra_clock_gettime w)) + 500) 1000 of
                  Inl e \<Rightarrow> Inl e
                | Inr us \<Rightarrow> Inr (tv_sec (snd (ra_clock_gettime w)) * 1000000 + us)),
             freq_after = freq, called = [''ra_clock_gettime'']\<rparr>)
      else if defined D ''EMSCRIPTEN'' then
        Inr (\<lambda>k w freq.
          \<lparr>returned =
             Inr (Time_of_double k
                    (double_mul k (emscripten_get_now w) (double_of_int k 1000))),
           freq_after = freq, called = [''emscripten_get_now'']\<rparr>)
      else if defined D ''PS2'' then
        Inr (\<lambda>k w freq.
          \<lparr>returned =
             (case udiv64 (ps2_clock w) (PS2_CLOCKS_PER_MSEC k) of
                Inl e \<Rightarrow> Inl e
              | Inr ms \<Rightarrow> Inr (ms * 1000)),
           freq_after = freq, called = [''ps2_clock'']\<rparr>)
      else if defined D ''VITA'' \<or> defined D ''PSP'' then
        Inr (\<lambda>k w freq.
          \<lparr>returned = Inr (sceKernelGetSystemTimeWide w), freq_after = freq,
           called = [''sceKernelGetSystemTimeWide'']\<rparr>)
      else Inl (Error ''Your platform does not have a timer function implemented in cpu_features_get_time_usec(). Cannot continue.''))"

section \<open>Successive calls\<close>

text \<open>
  The \<open>_WIN32\<close> build keeps \<open>freq\<close> in a \<open>static\<close> variable, so a call starts from what
  the call before it left there. \<open>win32_call w freq freq'\<close>: the call that receives the
  answers \<open>w\<close> and finds \<open>freq\<close> in the cache returns to its caller and leaves \<open>freq'\<close>.
  A call that stops with a fault has no successor. \<open>win32_calls\<close> chains such steps.
\<close>

inductive win32_call :: "os \<Rightarrow> LARGE_INTEGER \<Rightarrow> LARGE_INTEGER \<Rightarrow> bool" where
  win32_callI:
    "returned (getTimeUsec_WIN32 w freq) = Inr t \<Longrightarrow>
     freq' = freq_after (getTimeUsec_WIN32 w freq) \<Longrightarrow> win32_call w freq freq'"

inductive win32_calls :: "os list \<Rightarrow> LARGE_INTEGER \<Rightarrow> LARGE_INTEGER \<Rightarrow> bool" where
  win32_calls_Nil: "win32_calls [] freq freq"
| win32_calls_Cons:
    "win32_call w freq freq' \<Longrightarrow> win32_calls ws freq' freq'' \<Longrightarrow>
     win32_calls (w # ws) freq freq''"

code_pred win32_call .

code_pred win32_calls .

section \<open>The conversion in the words of the specification\<close>

text \<open>
  The specification gives the performance-counter conversion as
  \<^verbatim>\<open>(count / freq) * 1_000_000 + (count % freq) * 1_000_000 / freq\<close>
  and compares it with multiplying first and dividing afterwards. \<open>split_usec\<close> and
  \<open>naive_usec\<close> are the two computations on unbounded integers; \<open>split_usec64\<close> is the
  first one carried out in C's signed 64-bit arithmetic, every product and sum wrapping
  around and every quotient truncated.
\<close>

definition split_usec :: "int \<Rightarrow> int \<Rightarrow> int" where
  "split_usec count freq = (count div freq) * 1000000 + (count mod freq) * 1000000 div freq"

definition naive_usec :: "int \<Rightarrow> int \<Rightarrow> int" where
  "naive_usec count freq = (count * 1000000) div freq"

definition split_usec64 :: "int64 \<Rightarrow> int64 \<Rightarrow> int64" where
  "split_usec64 count freq =
     word_of_int (sint count sdiv sint freq) * 1000000
     + word_of_int
         (sint (word_of_int (sint count smod sint freq) * 1000000 :: int64) sdiv sint freq)"

section \<open>A platform for the concrete examples\<close>

text \<open>
  On \<open>os_quiet\<close> every query fails and every counter reads zero. The examples below
  replace the answers they need.
\<close>

definition os_quiet :: os where
  "os_quiet =
     \<lparr>QueryPerformanceFrequency = None, QueryPerformanceCounter = None,
      sysGetSystemTime = 0, sys_time_get_system_time = 0, gettime = 0,
      OSGetSystemTime = 0, svcGetSystemTick = 0, osGetTime = 0,
      ra_clock_gettime = (- 1, \<lparr>tv_sec = 0, tv_nsec = 0\<rparr>),
      emscripten_get_now = 0, ps2_clock = 0, sceKernelGetSystemTimeWide = 0\<rparr>"

section \<open>Facts about the 64-bit arithmetic\<close>

lemma sint_word_of_int64:
  "- (2 ^ 63) \<le> k \<Longrightarrow> k < 2 ^ 63 \<Longrightarrow> sint (word_of_int k :: 64 word) = k"
  by (simp add: sint_sbintrunc' signed_take_bit_int_eq_self)

lemma sdiv_nonneg: "0 \<le> a \<Longrightarrow> 0 < b \<Longrightarrow> a sdiv b = a div (b::int)"
  by (simp add: signed_divide_int_def sgn_if)

lemma smod_nonneg: "0 \<le> a \<Longrightarrow> 0 < b \<Longrightarrow> a smod b = a mod (b::int)"
  by (simp add: signed_modulo_int_def sgn_if)

lemma uint_eq_sint_nonneg64: "0 \<le> sint (t :: 64 word) \<Longrightarrow> uint t = sint t"
  using sint_lt [of t] by (simp add: uint_sint take_bit_int_eq_self)

text \<open>Two timestamps that are not negative compare alike as signed and as unsigned values.\<close>

lemma nonneg_le64:
  "0 \<le> sint (a :: 64 word) \<Longrightarrow> sint a \<le> sint (b :: 64 word) \<Longrightarrow> a \<le>s b \<and> a \<le> b"
  by (simp add: word_sle_eq word_le_def uint_eq_sint_nonneg64)

lemma sdiv64_pos:
  assumes "0 \<le> sint a" and "0 < sint b"
  shows "sdiv64 a b = Inr (word_of_int (sint a div sint b))"
  using assms by (auto simp add: sdiv64_def sdiv_nonneg)

lemma smod64_pos:
  assumes "0 \<le> sint a" and "0 < sint b"
  shows "smod64 a b = Inr (word_of_int (sint a mod sint b))"
  using assms by (auto simp add: smod64_def smod_nonneg)

section \<open>Facts about the two conversions\<close>

text \<open>Dividing the whole part and the remainder separately loses nothing.\<close>

lemma split_usec_naive: "freq \<noteq> 0 \<Longrightarrow> split_usec count freq = naive_usec count freq"
proof -
  assume f: "freq \<noteq> 0"
  have "count * 1000000 = (count mod freq + count div freq * freq) * 1000000"
    by simp
  also have "\<dots> = count mod freq * 1000000 + (count div freq * 1000000) * freq"
    by (simp only: distrib_right mult.assoc mult.commute [of freq])
  finally have "count * 1000000 div freq =
      (count mod freq * 1000000 + (count div freq * 1000000) * freq) div freq"
    by simp
  also have "\<dots> = count div freq * 1000000 + count mod freq * 1000000 div freq"
    using f by simp
  finally show ?thesis by (simp add: split_usec_def naive_usec_def)
qed

text \<open>With a positive frequency no division of line 36 faults.\<close>

lemma win32_convert_pos:
  assumes "0 < sint (QuadPart freq)"
  shows "win32_convert count freq = Inr (split_usec64 (QuadPart count) (QuadPart freq))"
  using assms
  by (auto simp add: win32_convert_def sdiv64_def smod64_def split_usec64_def)

text \<open>
  Line 36 is exact when the scaled remainder and the final value fit into 63 bits.
\<close>

lemma win32_convert_exact:
  assumes c: "0 \<le> sint (QuadPart count)" and f: "0 < sint (QuadPart freq)"
    and r: "(sint (QuadPart count) mod sint (QuadPart freq)) * 1000000 < 2 ^ 63"
    and n: "sint (QuadPart count) * 1000000 div sint (QuadPart freq) < 2 ^ 63"
  shows "\<exists>t. win32_convert count freq = Inr t
     \<and> sint t = split_usec (sint (QuadPart count)) (sint (QuadPart freq))"
proof -
  let ?c = "sint (QuadPart count)" and ?f = "sint (QuadPart freq)"
  let ?q = "?c div ?f" and ?r = "?c mod ?f"
  have q0: "0 \<le> ?q" using c f by (simp add: pos_imp_zdiv_nonneg_iff)
  have r0: "0 \<le> ?r" using f by simp
  have d0: "0 \<le> ?r * 1000000 div ?f" using r0 f by (simp add: pos_imp_zdiv_nonneg_iff)
  have sp: "split_usec ?c ?f = ?q * 1000000 + ?r * 1000000 div ?f"
    by (simp add: split_usec_def)
  have spn: "split_usec ?c ?f < 2 ^ 63"
    using n f by (simp add: split_usec_naive naive_usec_def)
  have rm: "sint (word_of_int ?r * 1000000 :: int64) = ?r * 1000000"
    using sint_word_of_int64 [of "?r * 1000000"] r r0 by simp
  have "win32_convert count freq =
      Inr (word_of_int ?q * 1000000 + word_of_int (?r * 1000000 div ?f))"
    using c f r0
    by (simp add: win32_convert_def sdiv64_pos smod64_pos rm)
  moreover have "sint (word_of_int ?q * 1000000 + word_of_int (?r * 1000000 div ?f) :: int64)
      = split_usec ?c ?f"
    using sint_word_of_int64 [of "split_usec ?c ?f"] spn q0 d0 by (simp add: sp)
  ultimately show ?thesis by blast
qed

text \<open>
  A later counter reading converts to a later timestamp, as long as neither conversion
  overflows.
\<close>

lemma win32_convert_mono:
  assumes f: "0 < sint (QuadPart freq)" and c1: "0 \<le> sint (QuadPart c1)"
    and le: "sint (QuadPart c1) \<le> sint (QuadPart c2)"
    and r1: "(sint (QuadPart c1) mod sint (QuadPart freq)) * 1000000 < 2 ^ 63"
    and r2: "(sint (QuadPart c2) mod sint (QuadPart freq)) * 1000000 < 2 ^ 63"
    and b: "sint (QuadPart c2) * 1000000 div sint (QuadPart freq) < 2 ^ 63"
  shows "\<exists>t1 t2. win32_convert c1 freq = Inr t1 \<and> win32_convert c2 freq = Inr t2
     \<and> t1 \<le>s t2 \<and> t1 \<le> t2"
proof -
  let ?f = "sint (QuadPart freq)" and ?a = "sint (QuadPart c1)" and ?b = "sint (QuadPart c2)"
  have m: "?a * 1000000 div ?f \<le> ?b * 1000000 div ?f"
    using le f by (intro zdiv_mono1) simp_all
  have a0: "0 \<le> ?a * 1000000 div ?f"
    using c1 f by (simp add: pos_imp_zdiv_nonneg_iff)
  have c2: "0 \<le> ?b" using c1 le by simp
  have b1: "?a * 1000000 div ?f < 2 ^ 63" using m b by simp
  obtain t1 where t1: "win32_convert c1 freq = Inr t1" "sint t1 = split_usec ?a ?f"
    using win32_convert_exact [OF c1 f r1 b1] by blast
  obtain t2 where t2: "win32_convert c2 freq = Inr t2" "sint t2 = split_usec ?b ?f"
    using win32_convert_exact [OF c2 f r2 b] by blast
  have "0 \<le> sint t1" "sint t1 \<le> sint t2"
    using t1(2) t2(2) m a0 f by (simp_all add: split_usec_naive naive_usec_def)
  then show ?thesis using t1(1) t2(1) nonneg_le64 by blast
qed

text \<open>Line 53 is exact when the value fits into 63 bits.\<close>

lemma posix_convert_exact:
  assumes s: "0 \<le> sint (tv_sec tv)" and n0: "0 \<le> sint (tv_nsec tv)"
    and n1: "sint (tv_nsec tv) < 1000000000"
    and b: "sint (tv_sec tv) * 1000000 + (sint (tv_nsec tv) + 500) div 1000 < 2 ^ 63"
  shows "\<exists>t. posix_convert tv = Inr t
     \<and> sint t = sint (tv_sec tv) * 1000000 + (sint (tv_nsec tv) + 500) div 1000"
proof -
  let ?s = "sint (tv_sec tv)" and ?n = "sint (tv_nsec tv)"
  have n500: "sint (tv_nsec tv + 500) = ?n + 500"
    using n0 n1 sint_word_of_int64 [of "?n + 500"] by simp
  have us: "(?n + 500) sdiv 1000 = (?n + 500) div 1000"
    using n0 by (simp add: sdiv_nonneg)
  have "posix_convert tv = Inr (word_of_int (?s * 1000000 + (?n + 500) div 1000))"
    by (simp add: posix_convert_def sdiv64_def n500 us)
  moreover have "sint (word_of_int (?s * 1000000 + (?n + 500) div 1000) :: int64)
      = ?s * 1000000 + (?n + 500) div 1000"
    using s n0 b by (intro sint_word_of_int64) simp_all
  ultimately show ?thesis by blast
qed

lemma posix_convert_mono:
  assumes s1: "0 \<le> sint (tv_sec tv1)"
    and n1: "0 \<le> sint (tv_nsec tv1)" "sint (tv_nsec tv1) < 1000000000"
    and n2: "0 \<le> sint (tv_nsec tv2)" "sint (tv_nsec tv2) < 1000000000"
    and le: "sint (tv_sec tv1) < sint (tv_sec tv2)
       \<or> sint (tv_sec tv1) = sint (tv_sec tv2) \<and> sint (tv_nsec tv1) \<le> sint (tv_nsec tv2)"
    and b: "sint (tv_sec tv2) * 1000000 + (sint (tv_nsec tv2) + 500) div 1000 < 2 ^ 63"
  shows "\<exists>t1 t2. posix_convert tv1 = Inr t1 \<and> posix_convert tv2 = Inr t2
     \<and> t1 \<le>s t2 \<and> t1 \<le> t2"
proof -
  let ?s1 = "sint (tv_sec tv1)" and ?n1 = "sint (tv_nsec tv1)"
  let ?s2 = "sint (tv_sec tv2)" and ?n2 = "sint (tv_nsec tv2)"
  have u1: "(?n1 + 500) div 1000 \<le> 1000000" "0 \<le> (?n1 + 500) div 1000"
    using n1 by simp_all
  have u2: "0 \<le> (?n2 + 500) div 1000"
    using n2 by simp
  have m: "?s1 * 1000000 + (?n1 + 500) div 1000 \<le> ?s2 * 1000000 + (?n2 + 500) div 1000"
  proof (cases "?s1 < ?s2")
    case True
    then have "?s1 + 1 \<le> ?s2" by simp
    then have "(?s1 + 1) * 1000000 \<le> ?s2 * 1000000" by simp
    with u1 u2 show ?thesis by (simp add: algebra_simps)
  next
    case False
    with le have "?s1 = ?s2" "?n1 \<le> ?n2" by simp_all
    then have "(?n1 + 500) div 1000 \<le> (?n2 + 500) div 1000"
      by (intro zdiv_mono1) simp_all
    with \<open>?s1 = ?s2\<close> show ?thesis by simp
  qed
  have s2: "0 \<le> ?s2" using s1 le by auto
  obtain t1 where t1: "posix_convert tv1 = Inr t1"
      "sint t1 = ?s1 * 1000000 + (?n1 + 500) div 1000"
    using posix_convert_exact [OF s1 n1] m b by fastforce
  obtain t2 where t2: "posix_convert tv2 = Inr t2"
      "sint t2 = ?s2 * 1000000 + (?n2 + 500) div 1000"
    using posix_convert_exact [OF s2 n2 b] by blast
  have "0 \<le> sint t1" "sint t1 \<le> sint t2"
    using t1(2) t2(2) m s1 u1 by simp_all
  then show ?thesis using t1(1) t2(1) nonneg_le64 by blast
qed

section \<open>Facts about the frequency cache\<close>

lemma win32_call_keeps:
  "win32_call w freq freq' \<Longrightarrow> QuadPart freq \<noteq> 0 \<Longrightarrow> freq' = freq"
  by (auto simp add: win32_call.simps getTimeUsec_WIN32_def win32_read_counter_def
      split: option.splits)

lemma win32_calls_keep:
  "win32_calls ws freq freq' \<Longrightarrow> QuadPart freq \<noteq> 0 \<Longrightarrow> freq' = freq"
  by (induction rule: win32_calls.induct) (auto dest: win32_call_keeps)

section \<open>Failed queries\<close>

text \<open>
  Claim C1. When a query to the timer fails, \<open>getTimeUsec\<close> returns exactly zero, as an
  ordinary return value and not as a fault: in the \<open>_WIN32\<close> branch when the frequency
  query fails while the cache is zero, and when the counter read fails (whatever the
  cache and the frequency query do); in the POSIX branch when \<open>ra_clock_gettime\<close>
  returns a negative status.
\<close>

theorem failed_query_returns_zero:
  "(QuadPart freq = 0 \<and> QueryPerformanceFrequency w = None
      \<longrightarrow> returned (getTimeUsec_WIN32 w freq) = Inr 0)
   \<and> (QueryPerformanceCounter w = None \<longrightarrow> returned (getTimeUsec_WIN32 w freq) = Inr 0)
   \<and> (fst (ra_clock_gettime w) <s 0 \<longrightarrow> returned (getTimeUsec_POSIX w freq) = Inr 0)"
  by (simp add: getTimeUsec_WIN32_def win32_read_counter_def getTimeUsec_POSIX_def
      split: option.split prod.split)

theorem failed_query_returns_zero_witness:
  "QuadPart \<lparr>QuadPart = 0\<rparr> = 0 \<and> QueryPerformanceFrequency os_quiet = None
   \<and> QueryPerformanceCounter os_quiet = None \<and> fst (ra_clock_gettime os_quiet) <s 0
   \<and> returned (getTimeUsec_WIN32 os_quiet \<lparr>QuadPart = 0\<rparr>) = Inr 0
   \<and> returned (getTimeUsec_POSIX os_quiet \<lparr>QuadPart = 0\<rparr>) = Inr 0"
proof -
  have h: "QuadPart \<lparr>QuadPart = 0\<rparr> = 0 \<and> QueryPerformanceFrequency os_quiet = None
      \<and> QueryPerformanceCounter os_quiet = None \<and> fst (ra_clock_gettime os_quiet) <s 0"
    by (simp add: os_quiet_def)
  with failed_query_returns_zero [of "\<lparr>QuadPart = 0\<rparr>" os_quiet] show ?thesis
    by blast
qed

section \<open>The POSIX conversion\<close>

text \<open>
  A clock that reads 18446744073710 seconds: the seconds scaled to microseconds are
  beyond 64 bits, and the call returns \<open>448384\<close> where the exact value is
  \<open>18446744073710000000\<close>.
\<close>

theorem posix_seconds_overflow_counterexample:
  "0 \<le> sint (18446744073710 :: int64)
   \<and> 0 \<le> sint (0 :: int64) \<and> sint (0 :: int64) < 1000000000
   \<and> returned (getTimeUsec_POSIX
        (os_quiet\<lparr>ra_clock_gettime := (0, \<lparr>tv_sec = 18446744073710, tv_nsec = 0\<rparr>)\<rparr>)
        \<lparr>QuadPart = 0\<rparr>) = Inr 448384
   \<and> sint (18446744073710 :: int64) * 1000000 + (sint (0 :: int64) + 500) div 1000
        = 18446744073710000000
   \<and> sint (448384 :: Time) \<noteq> 18446744073710000000
   \<and> uint (448384 :: Time) \<noteq> 18446744073710000000"
  by (simp add: getTimeUsec_POSIX_def posix_convert_def sdiv64_def signed_divide_int_def)

text \<open>
  Claim C2, amended. After a successful read of the monotonic clock with \<open>sec \<ge> 0\<close>
  and \<open>0 \<le> nsec < 1000000000\<close> such that
  \<open>sec * 1000000 + (nsec + 500) div 1000\<close> is below \<open>2 ^ 63\<close>, \<open>getTimeUsec\<close> returns
  exactly that integer, read as a signed and as an unsigned value: the whole seconds
  scaled to microseconds plus the nanoseconds rounded to the nearest microsecond by
  adding 500 before the division by 1000. (With a \<open>long\<close> of 32 bits \<open>nsec + 500\<close>
  does not overflow either.)
\<close>

theorem posix_rounded_microseconds_in_range:
  assumes "ra_clock_gettime w = (status, tv)" and "\<not> status <s 0"
    and "0 \<le> sint (tv_sec tv)"
    and "0 \<le> sint (tv_nsec tv)" and "sint (tv_nsec tv) < 1000000000"
    and "sint (tv_sec tv) * 1000000 + (sint (tv_nsec tv) + 500) div 1000 < 2 ^ 63"
  shows "\<exists>t. returned (getTimeUsec_POSIX w freq) = Inr t
     \<and> sint t = sint (tv_sec tv) * 1000000 + (sint (tv_nsec tv) + 500) div 1000
     \<and> uint t = sint (tv_sec tv) * 1000000 + (sint (tv_nsec tv) + 500) div 1000"
proof -
  let ?e = "sint (tv_sec tv) * 1000000 + (sint (tv_nsec tv) + 500) div 1000"
  obtain t where t: "posix_convert tv = Inr t" "sint t = ?e"
    using posix_convert_exact [OF assms(3,4,5,6)] by blast
  have "0 \<le> (sint (tv_nsec tv) + 500) div 1000"
    using assms(4) by simp
  then have "0 \<le> sint t"
    using t(2) assms(3) by simp
  then have "uint t = ?e"
    using t(2) by (simp add: uint_eq_sint_nonneg64)
  moreover have "returned (getTimeUsec_POSIX w freq) = Inr t"
    using assms(1,2) t(1) by (simp add: getTimeUsec_POSIX_def)
  ultimately show ?thesis using t(2) by blast
qed

theorem posix_rounded_microseconds_in_range_witness:
  "ra_clock_gettime (os_quiet\<lparr>ra_clock_gettime := (0, \<lparr>tv_sec = 12, tv_nsec = 345678\<rparr>)\<rparr>)
     = (0, \<lparr>tv_sec = 12, tv_nsec = 345678\<rparr>)
   \<and> \<not> (0 :: 32 word) <s 0
   \<and> 0 \<le> sint (12 :: int64) \<and> 0 \<le> sint (345678 :: int64)
   \<and> sint (345678 :: int64) < 1000000000
   \<and> sint (12 :: int64) * 1000000 + (sint (345678 :: int64) + 500) div 1000 < 2 ^ 63
   \<and> (\<exists>t. returned (getTimeUsec_POSIX
               (os_quiet\<lparr>ra_clock_gettime := (0, \<lparr>tv_sec = 12, tv_nsec = 345678\<rparr>)\<rparr>)
               \<lparr>QuadPart = 0\<rparr>) = Inr t
          \<and> sint t = 12000346 \<and> uint t = 12000346)"
  using posix_rounded_microseconds_in_range
    [of "os_quiet\<lparr>ra_clock_gettime := (0, \<lparr>tv_sec = 12, tv_nsec = 345678\<rparr>)\<rparr>"
        0 "\<lparr>tv_sec = 12, tv_nsec = 345678\<rparr>" "\<lparr>QuadPart = 0\<rparr>"]
  by simp

section \<open>The performance-counter conversion\<close>

text \<open>
  Claim C3. For a counter reading \<open>count \<ge> 0\<close> and a frequency \<open>freq > 0\<close> (the cached
  one, or the one the call has just queried), the \<open>_WIN32\<close> branch returns the split
  expression \<open>(count / freq) * 1000000 + (count % freq) * 1000000 / freq\<close>, and on
  unbounded integers the split computation equals \<open>count * 1000000 div freq\<close>.
\<close>

theorem win32_returns_split_expression:
  assumes "QueryPerformanceCounter w = Some count"
    and "if QuadPart freq0 = 0 then QueryPerformanceFrequency w = Some freq else freq = freq0"
    and "0 \<le> sint (QuadPart count)" and "0 < sint (QuadPart freq)"
  shows "returned (getTimeUsec_WIN32 w freq0)
        = Inr (split_usec64 (QuadPart count) (QuadPart freq))
    \<and> split_usec (sint (QuadPart count)) (sint (QuadPart freq))
        = naive_usec (sint (QuadPart count)) (sint (QuadPart freq))"
proof
  show "returned (getTimeUsec_WIN32 w freq0)
      = Inr (split_usec64 (QuadPart count) (QuadPart freq))"
    using assms(1,2,4)
    by (simp add: getTimeUsec_WIN32_def win32_read_counter_def win32_convert_pos
        split: if_splits)
  show "split_usec (sint (QuadPart count)) (sint (QuadPart freq))
        = naive_usec (sint (QuadPart count)) (sint (QuadPart freq))"
    using assms(4) by (simp add: split_usec_naive)
qed

theorem win32_returns_split_expression_witness:
  "QueryPerformanceCounter
      (os_quiet\<lparr>QueryPerformanceFrequency := Some \<lparr>QuadPart = 10000000\<rparr>,
                QueryPerformanceCounter := Some \<lparr>QuadPart = 25000007\<rparr>\<rparr>)
     = Some \<lparr>QuadPart = 25000007\<rparr>
   \<and> QueryPerformanceFrequency
      (os_quiet\<lparr>QueryPerformanceFrequency := Some \<lparr>QuadPart = 10000000\<rparr>,
                QueryPerformanceCounter := Some \<lparr>QuadPart = 25000007\<rparr>\<rparr>)
     = Some \<lparr>QuadPart = 10000000\<rparr>
   \<and> 0 \<le> sint (25000007 :: int64) \<and> 0 < sint (10000000 :: int64)
   \<and> returned (getTimeUsec_WIN32
        (os_quiet\<lparr>QueryPerformanceFrequency := Some \<lparr>QuadPart = 10000000\<rparr>,
                  QueryPerformanceCounter := Some \<lparr>QuadPart = 25000007\<rparr>\<rparr>)
        \<lparr>QuadPart = 0\<rparr>) = Inr 2500000
   \<and> split_usec 25000007 10000000 = 2500000
   \<and> naive_usec 25000007 10000000 = 2500000"
  using win32_returns_split_expression
    [of "os_quiet\<lparr>QueryPerformanceFrequency := Some \<lparr>QuadPart = 10000000\<rparr>,
                   QueryPerformanceCounter := Some \<lparr>QuadPart = 25000007\<rparr>\<rparr>"
        "\<lparr>QuadPart = 25000007\<rparr>" "\<lparr>QuadPart = 0\<rparr>" "\<lparr>QuadPart = 10000000\<rparr>"]
  by (simp add: split_usec64_def naive_usec_def signed_divide_int_def signed_modulo_int_def)

text \<open>
  The largest counter value with a frequency of one tick per second: the whole part alone,
  scaled to microseconds, is beyond 64 bits. The function returns \<open>-1000000\<close> where the
  exact value is \<open>9223372036854775807000000\<close>.
\<close>

theorem split_conversion_overflow_counterexample:
  "0 \<le> sint (9223372036854775807 :: int64) \<and> 0 < sint (1 :: int64)
   \<and> win32_convert \<lparr>QuadPart = 9223372036854775807\<rparr> \<lparr>QuadPart = 1\<rparr> = Inr (- 1000000)
   \<and> split_usec 9223372036854775807 1 = 9223372036854775807000000
   \<and> sint (- 1000000 :: int64) \<noteq> split_usec 9223372036854775807 1
   \<and> uint (- 1000000 :: int64) \<noteq> split_usec 9223372036854775807 1"
  by (simp add: win32_convert_def sdiv64_def smod64_def split_usec_def
      signed_divide_int_def signed_modulo_int_def)

text \<open>
  Claim C4, amended. For \<open>0 \<le> count < 2 ^ 63\<close> and \<open>0 < freq < 2 ^ 63\<close> such that the
  scaled remainder \<open>(count mod freq) * 1000000\<close> and the exact result
  \<open>count * 1000000 div freq\<close> are both below \<open>2 ^ 63\<close>, neither product of the split
  computation overflows, and the 64-bit result of line 36 equals the result on unbounded
  integers, read as a signed and as an unsigned value.
\<close>

theorem split_conversion_exact_in_range:
  assumes c: "0 \<le> sint (QuadPart count)" and f: "0 < sint (QuadPart freq)"
    and r: "(sint (QuadPart count) mod sint (QuadPart freq)) * 1000000 < 2 ^ 63"
    and n: "sint (QuadPart count) * 1000000 div sint (QuadPart freq) < 2 ^ 63"
  shows "sint (word_of_int (sint (QuadPart count) div sint (QuadPart freq)) * 1000000 :: int64)
        = (sint (QuadPart count) div sint (QuadPart freq)) * 1000000
    \<and> sint (word_of_int (sint (QuadPart count) mod sint (QuadPart freq)) * 1000000 :: int64)
        = (sint (QuadPart count) mod sint (QuadPart freq)) * 1000000
    \<and> (\<exists>t. win32_convert count freq = Inr t
          \<and> sint t = split_usec (sint (QuadPart count)) (sint (QuadPart freq))
          \<and> uint t = split_usec (sint (QuadPart count)) (sint (QuadPart freq)))"
proof -
  let ?c = "sint (QuadPart count)" and ?f = "sint (QuadPart freq)"
  let ?q = "?c div ?f" and ?r = "?c mod ?f"
  have q0: "0 \<le> ?q" using c f by (simp add: pos_imp_zdiv_nonneg_iff)
  have r0: "0 \<le> ?r" using f by simp
  have d0: "0 \<le> ?r * 1000000 div ?f" using r0 f by (simp add: pos_imp_zdiv_nonneg_iff)
  have "split_usec ?c ?f < 2 ^ 63"
    using n f by (simp add: split_usec_naive naive_usec_def)
  then have qb: "?q * 1000000 < 2 ^ 63"
    using d0 by (simp add: split_usec_def)
  have s0: "0 \<le> split_usec ?c ?f"
    using q0 d0 by (simp add: split_usec_def)
  have 1: "sint (word_of_int ?q * 1000000 :: int64) = ?q * 1000000"
    using sint_word_of_int64 [of "?q * 1000000"] qb q0 by simp
  have 2: "sint (word_of_int ?r * 1000000 :: int64) = ?r * 1000000"
    using sint_word_of_int64 [of "?r * 1000000"] r r0 by simp
  obtain t where t: "win32_convert count freq = Inr t" "sint t = split_usec ?c ?f"
    using win32_convert_exact [OF c f r n] by blast
  then have "uint t = split_usec ?c ?f"
    using s0 by (simp add: uint_eq_sint_nonneg64)
  with 1 2 t show ?thesis by blast
qed

theorem split_conversion_exact_in_range_witness:
  "0 \<le> sint (9223372036854775807 :: int64) \<and> 0 < sint (10000000 :: int64)
   \<and> (sint (9223372036854775807 :: int64) mod sint (10000000 :: int64)) * 1000000 < 2 ^ 63
   \<and> sint (9223372036854775807 :: int64) * 1000000 div sint (10000000 :: int64) < 2 ^ 63
   \<and> (\<exists>t. win32_convert \<lparr>QuadPart = 9223372036854775807\<rparr> \<lparr>QuadPart = 10000000\<rparr> = Inr t
         \<and> sint t = 922337203685477580 \<and> uint t = 922337203685477580)"
  using split_conversion_exact_in_range
    [of "\<lparr>QuadPart = 9223372036854775807\<rparr>" "\<lparr>QuadPart = 10000000\<rparr>"]
  by (simp add: split_usec_def)

section \<open>Rounding of the nanoseconds\<close>

text \<open>
  One second and 999500 nanoseconds: \<open>999500 + 500\<close> is a full \<open>1000000\<close>, a thousand
  microseconds, so the call does not return \<open>1000999\<close>.
\<close>

theorem posix_rounding_counterexample:
  "returned (getTimeUsec_POSIX
      (os_quiet\<lparr>ra_clock_gettime := (0, \<lparr>tv_sec = 1, tv_nsec = 999500\<rparr>)\<rparr>)
      \<lparr>QuadPart = 0\<rparr>) \<noteq> Inr 1000999"
  by (simp add: getTimeUsec_POSIX_def posix_convert_def sdiv64_def signed_divide_int_def)

text \<open>
  Claim C5, amended. For the seconds and nanoseconds strategy the reading
  \<open>(sec = 1, nsec = 999500)\<close> yields \<open>1001000\<close> microseconds, and the reading
  \<open>(sec = 0, nsec = 499)\<close> yields \<open>0\<close> microseconds.
\<close>

theorem posix_rounding_examples:
  "returned (getTimeUsec_POSIX
      (os_quiet\<lparr>ra_clock_gettime := (0, \<lparr>tv_sec = 1, tv_nsec = 999500\<rparr>)\<rparr>)
      \<lparr>QuadPart = 0\<rparr>) = Inr 1001000
   \<and> returned (getTimeUsec_POSIX
      (os_quiet\<lparr>ra_clock_gettime := (0, \<lparr>tv_sec = 0, tv_nsec = 499\<rparr>)\<rparr>)
      \<lparr>QuadPart = 0\<rparr>) = Inr 0"
  by (simp add: getTimeUsec_POSIX_def posix_convert_def sdiv64_def signed_divide_int_def)

section \<open>Order of successive timestamps\<close>

text \<open>
  With one tick per second the counter values \<open>1\<close> and \<open>18446744073710\<close> convert to
  \<open>1000000\<close> and, after wrapping around, to \<open>448384\<close>: the later reading gives the
  smaller timestamp, as a signed and as an unsigned value. The same happens to the
  seconds of the POSIX clock.
\<close>

theorem conversions_monotone_counterexample:
  "0 < sint (1 :: int64) \<and> sint (1 :: int64) \<le> sint (18446744073710 :: int64)
   \<and> win32_convert \<lparr>QuadPart = 1\<rparr> \<lparr>QuadPart = 1\<rparr> = Inr 1000000
   \<and> win32_convert \<lparr>QuadPart = 18446744073710\<rparr> \<lparr>QuadPart = 1\<rparr> = Inr 448384
   \<and> posix_convert \<lparr>tv_sec = 1, tv_nsec = 0\<rparr> = Inr 1000000
   \<and> posix_convert \<lparr>tv_sec = 18446744073710, tv_nsec = 0\<rparr> = Inr 448384
   \<and> \<not> (1000000 :: Time) \<le>s 448384 \<and> \<not> (1000000 :: Time) \<le> 448384"
  by (simp add: win32_convert_def posix_convert_def sdiv64_def smod64_def
      signed_divide_int_def signed_modulo_int_def)

text \<open>
  Claim C6, amended. As long as no conversion overflows, a later raw reading gives a
  timestamp that is not smaller, as a signed and as an unsigned value.
  \<^item> \<open>_WIN32\<close>: two successive calls read the counters \<open>0 \<le> c1 \<le> c2\<close>; the frequency
    \<open>freq > 0\<close> is the cached one, or the first call queries it and the second call finds
    it in the cache. Both scaled remainders \<open>(c mod freq) * 1000000\<close> and the later
    exact result \<open>c2 * 1000000 div freq\<close> are below \<open>2 ^ 63\<close>. Then both calls return
    the conversions of \<open>c1\<close> and \<open>c2\<close> by the same \<open>freq\<close>, in order.
  \<^item> POSIX: two successive calls read \<open>(sec1, nsec1)\<close> and \<open>(sec2, nsec2)\<close> with
    \<open>0 \<le> sec1\<close>, \<open>0 \<le> nsec < 1000000000\<close>, the first not after the second in
    lexicographic order, and the later exact result below \<open>2 ^ 63\<close>. Then they return
    the conversions of the two readings, in order.
\<close>

theorem successive_timestamps_monotone:
  "(QueryPerformanceCounter w1 = Some c1 \<and> QueryPerformanceCounter w2 = Some c2
      \<and> (if QuadPart freq0 = 0 then QueryPerformanceFrequency w1 = Some freq
          else freq = freq0)
      \<and> 0 < sint (QuadPart freq)
      \<and> 0 \<le> sint (QuadPart c1) \<and> sint (QuadPart c1) \<le> sint (QuadPart c2)
      \<and> (sint (QuadPart c1) mod sint (QuadPart freq)) * 1000000 < 2 ^ 63
      \<and> (sint (QuadPart c2) mod sint (QuadPart freq)) * 1000000 < 2 ^ 63
      \<and> sint (QuadPart c2) * 1000000 div sint (QuadPart freq) < 2 ^ 63
    \<longrightarrow> (\<exists>t1 t2. win32_convert c1 freq = Inr t1 \<and> win32_convert c2 freq = Inr t2
          \<and> returned (getTimeUsec_WIN32 w1 freq0) = Inr t1
          \<and> returned (getTimeUsec_WIN32 w2 (freq_after (getTimeUsec_WIN32 w1 freq0))) = Inr t2
          \<and> t1 \<le>s t2 \<and> t1 \<le> t2))
   \<and> (ra_clock_gettime v1 = (st1, tv1) \<and> ra_clock_gettime v2 = (st2, tv2)
      \<and> \<not> st1 <s 0 \<and> \<not> st2 <s 0
      \<and> 0 \<le> sint (tv_sec tv1)
      \<and> 0 \<le> sint (tv_nsec tv1) \<and> sint (tv_nsec tv1) < 1000000000
      \<and> 0 \<le> sint (tv_nsec tv2) \<and> sint (tv_nsec tv2) < 1000000000
      \<and> (sint (tv_sec tv1) < sint (tv_sec tv2)
          \<or> sint (tv_sec tv1) = sint (tv_sec tv2) \<and> sint (tv_nsec tv1) \<le> sint (tv_nsec tv2))
      \<and> sint (tv_sec tv2) * 1000000 + (sint (tv_nsec tv2) + 500) div 1000 < 2 ^ 63
    \<longrightarrow> (\<exists>t1 t2. posix_convert tv1 = Inr t1 \<and> posix_convert tv2 = Inr t2
          \<and> returned (getTimeUsec_POSIX v1 fr) = Inr t1
          \<and> returned (getTimeUsec_POSIX v2 (freq_after (getTimeUsec_POSIX v1 fr))) = Inr t2
          \<and> t1 \<le>s t2 \<and> t1 \<le> t2))"
proof (intro conjI impI)
  assume h: "QueryPerformanceCounter w1 = Some c1 \<and> QueryPerformanceCounter w2 = Some c2
      \<and> (if QuadPart freq0 = 0 then QueryPerformanceFrequency w1 = Some freq
          else freq = freq0)
      \<and> 0 < sint (QuadPart freq)
      \<and> 0 \<le> sint (QuadPart c1) \<and> sint (QuadPart c1) \<le> sint (QuadPart c2)
      \<and> (sint (QuadPart c1) mod sint (QuadPart freq)) * 1000000 < 2 ^ 63
      \<and> (sint (QuadPart c2) mod sint (QuadPart freq)) * 1000000 < 2 ^ 63
      \<and> sint (QuadPart c2) * 1000000 div sint (QuadPart freq) < 2 ^ 63"
  then have nz: "QuadPart freq \<noteq> 0" by auto
  obtain t1 t2 where t: "win32_convert c1 freq = Inr t1" "win32_convert c2 freq = Inr t2"
      "t1 \<le>s t2" "t1 \<le> t2"
    using win32_convert_mono [of freq c1 c2] h by blast
  have o1: "returned (getTimeUsec_WIN32 w1 freq0) = win32_convert c1 freq"
      "freq_after (getTimeUsec_WIN32 w1 freq0) = freq"
    using h by (simp_all add: getTimeUsec_WIN32_def win32_read_counter_def split: if_splits)
  have o2: "returned (getTimeUsec_WIN32 w2 freq) = win32_convert c2 freq"
    using h nz by (simp add: getTimeUsec_WIN32_def win32_read_counter_def)
  show "\<exists>t1 t2. win32_convert c1 freq = Inr t1 \<and> win32_convert c2 freq = Inr t2
          \<and> returned (getTimeUsec_WIN32 w1 freq0) = Inr t1
          \<and> returned (getTimeUsec_WIN32 w2 (freq_after (getTimeUsec_WIN32 w1 freq0))) = Inr t2
          \<and> t1 \<le>s t2 \<and> t1 \<le> t2"
    using t o1 o2 by simp
next
  assume h: "ra_clock_gettime v1 = (st1, tv1) \<and> ra_clock_gettime v2 = (st2, tv2)
      \<and> \<not> st1 <s 0 \<and> \<not> st2 <s 0
      \<and> 0 \<le> sint (tv_sec tv1)
      \<and> 0 \<le> sint (tv_nsec tv1) \<and> sint (tv_nsec tv1) < 1000000000
      \<and> 0 \<le> sint (tv_nsec tv2) \<and> sint (tv_nsec tv2) < 1000000000
      \<and> (sint (tv_sec tv1) < sint (tv_sec tv2)
          \<or> sint (tv_sec tv1) = sint (tv_sec tv2) \<and> sint (tv_nsec tv1) \<le> sint (tv_nsec tv2))
      \<and> sint (tv_sec tv2) * 1000000 + (sint (tv_nsec tv2) + 500) div 1000 < 2 ^ 63"
  obtain t1 t2 where t: "posix_convert tv1 = Inr t1" "posix_convert tv2 = Inr t2"
      "t1 \<le>s t2" "t1 \<le> t2"
    using posix_convert_mono [of tv1 tv2] h by blast
  have o: "returned (getTimeUsec_POSIX v1 fr) = posix_convert tv1"
      "returned (getTimeUsec_POSIX v2 fr') = posix_convert tv2" for fr'
    using h by (simp_all add: getTimeUsec_POSIX_def)
  show "\<exists>t1 t2. posix_convert tv1 = Inr t1 \<and> posix_convert tv2 = Inr t2
          \<and> returned (getTimeUsec_POSIX v1 fr) = Inr t1
          \<and> returned (getTimeUsec_POSIX v2 (freq_after (getTimeUsec_POSIX v1 fr))) = Inr t2
          \<and> t1 \<le>s t2 \<and> t1 \<le> t2"
    using t o by simp
qed

theorem successive_timestamps_monotone_witness:
  "(QueryPerformanceCounter
       (os_quiet\<lparr>QueryPerformanceFrequency := Some \<lparr>QuadPart = 10000000\<rparr>,
                 QueryPerformanceCounter := Some \<lparr>QuadPart = 25000007\<rparr>\<rparr>)
      = Some \<lparr>QuadPart = 25000007\<rparr>
    \<and> QueryPerformanceCounter
       (os_quiet\<lparr>QueryPerformanceCounter := Some \<lparr>QuadPart = 25000017\<rparr>\<rparr>)
      = Some \<lparr>QuadPart = 25000017\<rparr>
    \<and> QueryPerformanceFrequency
       (os_quiet\<lparr>QueryPerformanceFrequency := Some \<lparr>QuadPart = 10000000\<rparr>,
                 QueryPerformanceCounter := Some \<lparr>QuadPart = 25000007\<rparr>\<rparr>)
      = Some \<lparr>QuadPart = 10000000\<rparr>
    \<and> 0 < sint (10000000 :: int64)
    \<and> 0 \<le> sint (25000007 :: int64) \<and> sint (25000007 :: int64) \<le> sint (25000017 :: int64)
    \<and> (sint (25000007 :: int64) mod sint (10000000 :: int64)) * 1000000 < 2 ^ 63
    \<and> (sint (25000017 :: int64) mod sint (10000000 :: int64)) * 1000000 < 2 ^ 63
    \<and> sint (25000017 :: int64) * 1000000 div sint (10000000 :: int64) < 2 ^ 63)
   \<and> (\<exists>t1 t2.
        returned (getTimeUsec_WIN32
          (os_quiet\<lparr>QueryPerformanceFrequency := Some \<lparr>QuadPart = 10000000\<rparr>,
                    QueryPerformanceCounter := Some \<lparr>QuadPart = 25000007\<rparr>\<rparr>)
          \<lparr>QuadPart = 0\<rparr>) = Inr t1
        \<and> returned (getTimeUsec_WIN32
          (os_quiet\<lparr>QueryPerformanceCounter := Some \<lparr>QuadPart = 25000017\<rparr>\<rparr>)
          (freq_after (getTimeUsec_WIN32
            (os_quiet\<lparr>QueryPerformanceFrequency := Some \<lparr>QuadPart = 10000000\<rparr>,
                      QueryPerformanceCounter := Some \<lparr>QuadPart = 25000007\<rparr>\<rparr>)
            \<lparr>QuadPart = 0\<rparr>))) = Inr t2
        \<and> t1 \<le>s t2 \<and> t1 \<le> t2)
   \<and> (\<not> (0 :: 32 word) <s 0
    \<and> 0 \<le> sint (1 :: int64)
    \<and> 0 \<le> sint (999999999 :: int64) \<and> sint (999999999 :: int64) < 1000000000
    \<and> 0 \<le> sint (0 :: int64) \<and> sint (0 :: int64) < 1000000000
    \<and> sint (1 :: int64) < sint (2 :: int64)
    \<and> sint (2 :: int64) * 1000000 + (sint (0 :: int64) + 500) div 1000 < 2 ^ 63)
   \<and> (\<exists>t1 t2.
        returned (getTimeUsec_POSIX
          (os_quiet\<lparr>ra_clock_gettime := (0, \<lparr>tv_sec = 1, tv_nsec = 999999999\<rparr>)\<rparr>)
          \<lparr>QuadPart = 0\<rparr>) = Inr t1
        \<and> returned (getTimeUsec_POSIX
          (os_quiet\<lparr>ra_clock_gettime := (0, \<lparr>tv_sec = 2, tv_nsec = 0\<rparr>)\<rparr>)
          (freq_after (getTimeUsec_POSIX
            (os_quiet\<lparr>ra_clock_gettime := (0, \<lparr>tv_sec = 1, tv_nsec = 999999999\<rparr>)\<rparr>)
            \<lparr>QuadPart = 0\<rparr>))) = Inr t2
        \<and> t1 \<le>s t2 \<and> t1 \<le> t2)"
proof -
  have w: "QueryPerformanceCounter
       (os_quiet\<lparr>QueryPerformanceFrequency := Some \<lparr>QuadPart = 10000000\<rparr>,
                 QueryPerformanceCounter := Some \<lparr>QuadPart = 25000007\<rparr>\<rparr>)
      = Some \<lparr>QuadPart = 25000007\<rparr>
    \<and> QueryPerformanceCounter
       (os_quiet\<lparr>QueryPerformanceCounter := Some \<lparr>QuadPart = 25000017\<rparr>\<rparr>)
      = Some \<lparr>QuadPart = 25000017\<rparr>
    \<and> QueryPerformanceFrequency
       (os_quiet\<lparr>QueryPerformanceFrequency := Some \<lparr>QuadPart = 10000000\<rparr>,
                 QueryPerformanceCounter := Some \<lparr>QuadPart = 25000007\<rparr>\<rparr>)
      = Some \<lparr>QuadPart = 10000000\<rparr>
    \<and> 0 < sint (10000000 :: int64)
    \<and> 0 \<le> sint (25000007 :: int64) \<and> sint (25000007 :: int64) \<le> sint (25000017 :: int64)
    \<and> (sint (25000007 :: int64) mod sint (10000000 :: int64)) * 1000000 < 2 ^ 63
    \<and> (sint (25000017 :: int64) mod sint (10000000 :: int64)) * 1000000 < 2 ^ 63
    \<and> sint (25000017 :: int64) * 1000000 div sint (10000000 :: int64) < 2 ^ 63"
    by simp
  have p: "\<not> (0 :: 32 word) <s 0
    \<and> 0 \<le> sint (1 :: int64)
    \<and> 0 \<le> sint (999999999 :: int64) \<and> sint (999999999 :: int64) < 1000000000
    \<and> 0 \<le> sint (0 :: int64) \<and> sint (0 :: int64) < 1000000000
    \<and> sint (1 :: int64) < sint (2 :: int64)
    \<and> sint (2 :: int64) * 1000000 + (sint (0 :: int64) + 500) div 1000 < 2 ^ 63"
    by simp
  show ?thesis
    using w p successive_timestamps_monotone
      [of "os_quiet\<lparr>QueryPerformanceFrequency := Some \<lparr>QuadPart = 10000000\<rparr>,
                     QueryPerformanceCounter := Some \<lparr>QuadPart = 25000007\<rparr>\<rparr>"
          "\<lparr>QuadPart = 25000007\<rparr>"
          "os_quiet\<lparr>QueryPerformanceCounter := Some \<lparr>QuadPart = 25000017\<rparr>\<rparr>"
          "\<lparr>QuadPart = 25000017\<rparr>" "\<lparr>QuadPart = 0\<rparr>" "\<lparr>QuadPart = 10000000\<rparr>"
          "os_quiet\<lparr>ra_clock_gettime := (0, \<lparr>tv_sec = 1, tv_nsec = 999999999\<rparr>)\<rparr>"
          0 "\<lparr>tv_sec = 1, tv_nsec = 999999999\<rparr>"
          "os_quiet\<lparr>ra_clock_gettime := (0, \<lparr>tv_sec = 2, tv_nsec = 0\<rparr>)\<rparr>"
          0 "\<lparr>tv_sec = 2, tv_nsec = 0\<rparr>" "\<lparr>QuadPart = 0\<rparr>"]
    by simp blast
qed

section \<open>The frequency cache\<close>

text \<open>
  Claim C7. Successive calls of the \<open>_WIN32\<close> build as steps over the static cache:
  \<^item> a call that finds the cache nonzero does not call \<open>QueryPerformanceFrequency\<close> and
    leaves the cache as it found it;
  \<^item> a call that finds the cache zero and whose frequency query fails leaves the cache
    zero, and the call after it queries the frequency again;
  \<^item> from a nonzero cache, every state that any sequence of calls reaches holds that
    same value.
\<close>

theorem frequency_cache_initialised_once:
  "(QuadPart freq \<noteq> 0 \<longrightarrow>
      ''QueryPerformanceFrequency'' \<notin> set (called (getTimeUsec_WIN32 w freq))
      \<and> freq_after (getTimeUsec_WIN32 w freq) = freq)
   \<and> (QuadPart freq0 = 0 \<and> QueryPerformanceFrequency w0 = None \<longrightarrow>
        QuadPart (freq_after (getTimeUsec_WIN32 w0 freq0)) = 0
        \<and> ''QueryPerformanceFrequency''
            \<in> set (called (getTimeUsec_WIN32 w' (freq_after (getTimeUsec_WIN32 w0 freq0)))))
   \<and> (QuadPart freq \<noteq> 0 \<and> win32_calls ws freq freq' \<longrightarrow> freq' = freq)"
  by (auto simp add: getTimeUsec_WIN32_def win32_read_counter_def win32_calls_keep
      split: option.split)

theorem frequency_cache_initialised_once_witness:
  "QuadPart \<lparr>QuadPart = 10000000\<rparr> \<noteq> 0
   \<and> ''QueryPerformanceFrequency'' \<notin> set (called (getTimeUsec_WIN32
        (os_quiet\<lparr>QueryPerformanceFrequency := Some \<lparr>QuadPart = 3\<rparr>,
                  QueryPerformanceCounter := Some \<lparr>QuadPart = 25000007\<rparr>\<rparr>)
        \<lparr>QuadPart = 10000000\<rparr>))
   \<and> freq_after (getTimeUsec_WIN32
        (os_quiet\<lparr>QueryPerformanceFrequency := Some \<lparr>QuadPart = 3\<rparr>,
                  QueryPerformanceCounter := Some \<lparr>QuadPart = 25000007\<rparr>\<rparr>)
        \<lparr>QuadPart = 10000000\<rparr>) = \<lparr>QuadPart = 10000000\<rparr>
   \<and> QuadPart \<lparr>QuadPart = 0\<rparr> = 0 \<and> QueryPerformanceFrequency os_quiet = None
   \<and> QuadPart (freq_after (getTimeUsec_WIN32 os_quiet \<lparr>QuadPart = 0\<rparr>)) = 0
   \<and> ''QueryPerformanceFrequency'' \<in> set (called (getTimeUsec_WIN32
        (os_quiet\<lparr>QueryPerformanceFrequency := Some \<lparr>QuadPart = 3\<rparr>,
                  QueryPerformanceCounter := Some \<lparr>QuadPart = 25000007\<rparr>\<rparr>)
        (freq_after (getTimeUsec_WIN32 os_quiet \<lparr>QuadPart = 0\<rparr>))))
   \<and> win32_calls
        [os_quiet\<lparr>QueryPerformanceFrequency := Some \<lparr>QuadPart = 3\<rparr>,
                  QueryPerformanceCounter := Some \<lparr>QuadPart = 25000007\<rparr>\<rparr>, os_quiet]
        \<lparr>QuadPart = 10000000\<rparr> \<lparr>QuadPart = 10000000\<rparr>"
proof -
  let ?w = "os_quiet\<lparr>QueryPerformanceFrequency := Some \<lparr>QuadPart = 3\<rparr>,
                     QueryPerformanceCounter := Some \<lparr>QuadPart = 25000007\<rparr>\<rparr>"
  let ?f = "\<lparr>QuadPart = 10000000\<rparr>"
  have s1: "win32_call ?w ?f ?f"
    by (rule win32_callI [where t = 2500000])
      (simp_all add: os_quiet_def getTimeUsec_WIN32_def win32_read_counter_def
        win32_convert_def sdiv64_def smod64_def signed_divide_int_def signed_modulo_int_def)
  have s2: "win32_call os_quiet ?f ?f"
    by (rule win32_callI [where t = 0])
      (simp_all add: os_quiet_def getTimeUsec_WIN32_def win32_read_counter_def)
  have run: "win32_calls [?w, os_quiet] ?f ?f"
    by (intro win32_calls_Cons [OF s1] win32_calls_Cons [OF s2] win32_calls_Nil)
  have h: "QuadPart ?f \<noteq> 0 \<and> QuadPart \<lparr>QuadPart = 0\<rparr> = 0
      \<and> QueryPerformanceFrequency os_quiet = None"
    by (simp add: os_quiet_def)
  show ?thesis
    using h run frequency_cache_initialised_once
      [of ?f ?w "\<lparr>QuadPart = 0\<rparr>" os_quiet ?w "[?w, os_quiet]" ?f]
    by blast
qed

section \<open>Platforms without a timer\<close>

text \<open>
  Claim C8. When none of the macros that the conditionals test is defined, compiling
  \<open>getTimeUsec\<close> stops with the \<open>#error\<close> diagnostic, which names the missing timer
  function; no function is produced for that platform, so there is nothing that could
  run in its place: a function is compiled exactly when one of the tested macros is
  defined.
\<close>

theorem unsupported_platform_fails_to_build:
  "((\<forall>m \<in> set tested_macros. \<not> defined D m) \<longrightarrow>
      getTimeUsec D = Inl (Error ''Your platform does not have a timer function implemented in cpu_features_get_time_usec(). Cannot continue.''))
   \<and> ((\<exists>f. getTimeUsec D = Inr f) \<longleftrightarrow> (\<exists>m \<in> set tested_macros. defined D m))"
  by (simp add: getTimeUsec_def tested_macros_def)

theorem unsupported_platform_fails_to_build_witness:
  "set tested_macros \<inter> {''__HAIKU__'', ''__x86_64__''} = {}
   \<and> getTimeUsec {''__HAIKU__'', ''__x86_64__''} = Inl (Error ''Your platform does not have a timer function implemented in cpu_features_get_time_usec(). Cannot continue.'')
   \<and> (\<exists>m \<in> set tested_macros. defined {''__PS3__''} m)
   \<and> (\<exists>f. getTimeUsec {''__PS3__''} = Inr f)"
proof -
  have d: "set tested_macros \<inter> {''__HAIKU__'', ''__x86_64__''} = {}"
    by (simp add: tested_macros_def)
  then have h: "\<forall>m \<in> set tested_macros. \<not> defined {''__HAIKU__'', ''__x86_64__''} m"
    unfolding defined_def by blast
  have g: "\<exists>m \<in> set tested_macros. defined {''__PS3__''} m"
    by (simp add: tested_macros_def defined_def)
  show ?thesis
    using d h g unsupported_platform_fails_to_build [of "{''__HAIKU__'', ''__x86_64__''}"]
      unsupported_platform_fails_to_build [of "{''__PS3__''}"]
    by blast
qed

section \<open>The two copies\<close>

text \<open>
  Claim C9. The two definitions of \<open>getTimeUsec\<close> in the repository are equal: for
  every set of defined macros both files build alike, and the two compiled functions
  agree on every answer of the platform and every content of the cache, in the returned
  value, in the cache they leave and in the primitives they call. So they agree on every
  sequence of calls.
\<close>

theorem getTimeUsec_copies_equal: "getTimeUsec_root D = getTimeUsec D"
  unfolding getTimeUsec_root_def getTimeUsec_def
  apply (intro if_cong [OF refl] arg_cong [where f = Inr] ext)
             apply (simp_all add: getTimeUsec_WIN32_def win32_read_counter_def
      win32_convert_def getTimeUsec_POSIX_def posix_convert_def getTimeUsec_PSL1GHT_def
      getTimeUsec_PS3_def getTimeUsec_GEKKO_def getTimeUsec_WIIU_def getTimeUsec_SWITCH_def
      getTimeUsec_3DS_def getTimeUsec_EMSCRIPTEN_def getTimeUsec_PS2_def
      getTimeUsec_VITA_def case_prod_beta
      split: option.split bool.split cong: sum.case_cong)
  done

theorem getTimeUsec_copies_equal_witness:
  "getTimeUsec_root {''ANDROID''} = getTimeUsec {''ANDROID''}"
  using getTimeUsec_copies_equal [of "{''ANDROID''}"] .

section \<open>Division by the frequency\<close>

text \<open>
  A frequency query that reports success and stores zero passes the guard of line 31,
  which looks at the return value of the query only; line 36 then divides by zero.
\<close>

theorem win32_division_by_zero_counterexample:
  "returned (getTimeUsec_WIN32
      (os_quiet\<lparr>QueryPerformanceFrequency := Some \<lparr>QuadPart = 0\<rparr>,
                QueryPerformanceCounter := Some \<lparr>QuadPart = 1\<rparr>\<rparr>) \<lparr>QuadPart = 0\<rparr>)
    = Inl DivideByZero"
  by (simp add: os_quiet_def getTimeUsec_WIN32_def win32_read_counter_def win32_convert_def
      sdiv64_def smod64_def)

text \<open>
  Claim C10, amended. In the \<open>_WIN32\<close> branch, provided that a frequency query that
  succeeds stores a nonzero frequency, no call divides by zero: a call that leaves the
  cache zero has returned zero at the guard, after the failed frequency query and before
  the counter is read, so line 36 is only reached with a nonzero frequency.
\<close>

theorem win32_division_guarded:
  assumes "\<forall>f. QueryPerformanceFrequency w = Some f \<longrightarrow> QuadPart f \<noteq> 0"
  shows "returned (getTimeUsec_WIN32 w freq) \<noteq> Inl DivideByZero
    \<and> (QuadPart (freq_after (getTimeUsec_WIN32 w freq)) = 0 \<longrightarrow>
         returned (getTimeUsec_WIN32 w freq) = Inr 0
         \<and> called (getTimeUsec_WIN32 w freq) = [''QueryPerformanceFrequency''])"
  using assms
  by (auto simp add: getTimeUsec_WIN32_def win32_read_counter_def win32_convert_def
      sdiv64_def smod64_def split: option.split sum.split)

theorem win32_division_guarded_witness:
  "QueryPerformanceFrequency
      (os_quiet\<lparr>QueryPerformanceFrequency := Some \<lparr>QuadPart = 10000000\<rparr>,
                QueryPerformanceCounter := Some \<lparr>QuadPart = 25000007\<rparr>\<rparr>)
     = Some \<lparr>QuadPart = 10000000\<rparr>
   \<and> QuadPart \<lparr>QuadPart = 10000000\<rparr> \<noteq> 0
   \<and> returned (getTimeUsec_WIN32
          (os_quiet\<lparr>QueryPerformanceFrequency := Some \<lparr>QuadPart = 10000000\<rparr>,
                    QueryPerformanceCounter := Some \<lparr>QuadPart = 25000007\<rparr>\<rparr>)
          \<lparr>QuadPart = 0\<rparr>) \<noteq> Inl DivideByZero
   \<and> QueryPerformanceFrequency os_quiet = None
   \<and> QuadPart (freq_after (getTimeUsec_WIN32 os_quiet \<lparr>QuadPart = 0\<rparr>)) = 0
   \<and> returned (getTimeUsec_WIN32 os_quiet \<lparr>QuadPart = 0\<rparr>) = Inr 0
   \<and> called (getTimeUsec_WIN32 os_quiet \<lparr>QuadPart = 0\<rparr>) = [''QueryPerformanceFrequency'']"
proof -
  let ?w = "os_quiet\<lparr>QueryPerformanceFrequency := Some \<lparr>QuadPart = 10000000\<rparr>,
                     QueryPerformanceCounter := Some \<lparr>QuadPart = 25000007\<rparr>\<rparr>"
  have q1: "QueryPerformanceFrequency ?w = Some \<lparr>QuadPart = 10000000\<rparr>
      \<and> QuadPart \<lparr>QuadPart = 10000000\<rparr> \<noteq> 0"
    by simp
  then have h1: "\<forall>f. QueryPerformanceFrequency ?w = Some f \<longrightarrow> QuadPart f \<noteq> 0"
    by simp
  have q2: "QueryPerformanceFrequency os_quiet = None"
    by (simp add: os_quiet_def)
  then have h2: "\<forall>f. QueryPerformanceFrequency os_quiet = Some f \<longrightarrow> QuadPart f \<noteq> 0"
    by simp
  have z: "QuadPart (freq_after (getTimeUsec_WIN32 os_quiet \<lparr>QuadPart = 0\<rparr>)) = 0"
    by (simp add: os_quiet_def getTimeUsec_WIN32_def)
  show ?thesis
    using q1 q2 z win32_division_guarded [OF h1, of "\<lparr>QuadPart = 0\<rparr>"]
      win32_division_guarded [OF h2, of "\<lparr>QuadPart = 0\<rparr>"]
    by blast
qed

end
